theory Spec2Isabelle
  imports Main
begin

section \<open>Data model of the problem service (src/src/index.ts)\<close>

text \<open>
  The service keeps two Firestore collections, \<open>users\<close> and \<open>problems\<close>. A collection is
  an association list of (document id, document) in the order in which a query iterates
  it. A field that a document may lack is an \<open>option\<close>. Timestamps written by
  \<open>FieldValue.serverTimestamp()\<close> are natural numbers supplied by the environment, and
  so is the id that \<open>collection.add\<close> generates.
\<close>

type_synonym doc_id = string
type_synonym timestamp = nat

record problem =
  chefId :: "string option"
  description :: "string option"
  type :: string
  status :: string
  createdAt :: timestamp
  isPredefined :: bool
  assignedTechnician :: "doc_id option"
  solvedAt :: "timestamp option"

record user =
  role :: "string option"
  speciality :: "string option"
  isAvailable :: "bool option"
  allProblems :: "doc_id list option"
  email :: "string option"
  currentProblem :: "doc_id option"
  lastAssigned :: "timestamp option"

record db =
  users :: "(doc_id \<times> user) list"
  problems :: "(doc_id \<times> problem) list"

text \<open>The body of a request: the fields the handlers destructure from \<open>req.body\<close>.
  \<open>chefId\<close>, \<open>title\<close> and \<open>description\<close> may be missing; the requested \<open>type\<close> is a
  string, and so is the \<open>status\<close> of PUT /problems/:id, which that handler takes as an
  argument (the handlers do not validate them).\<close>

record body =
  req_chefId :: "string option"
  req_title :: "string option"
  req_description :: "string option"
  req_type :: string

text \<open>What the environment decides during one request: the id generated by
  \<open>collection.add\<close>, the server timestamps of the first and of the second write, and
  whether the two outbound HTTP calls throw.\<close>

record env =
  fresh_id :: doc_id
  time_first :: timestamp
  time_second :: timestamp
  email_fails :: bool
  peer_fails :: bool

datatype outbound =
    Email string string string
  | PeerAvailability doc_id bool "doc_id option"

datatype response =
    ProblemCreated doc_id string "nat option" string
  | PredefinedCreated doc_id string "doc_id option" string
  | StatusUpdated string bool
  | Deleted string
  | ServerError string

fun status_code :: "response \<Rightarrow> nat" where
  "status_code (ProblemCreated _ _ _ _) = 201"
| "status_code (PredefinedCreated _ _ _ _) = 201"
| "status_code (StatusUpdated _ _) = 200"
| "status_code (Deleted _) = 200"
| "status_code (ServerError _) = 500"

record result =
  res_db :: db
  res_response :: response
  res_log :: "string list"
  res_calls :: "outbound list"

section \<open>JavaScript values\<close>

text \<open>Truthiness of a value that is \<open>null\<close>/\<open>undefined\<close> or a string: the empty string is
  falsy.\<close>

fun truthy :: "string option \<Rightarrow> bool" where
  "truthy None = False"
| "truthy (Some s) = (s \<noteq> [])"

text \<open>\<open>a || b\<close> on such values.\<close>

definition js_or :: "string option \<Rightarrow> string option \<Rightarrow> string option" where
  "js_or a b = (if truthy a then a else b)"

text \<open>A value inside a template literal.\<close>

fun template_str :: "string option \<Rightarrow> string" where
  "template_str None = ''undefined''"
| "template_str (Some s) = s"

definition digit_char :: "nat \<Rightarrow> char" where
  "digit_char n = ''0123456789'' ! n"

fun show_nat :: "nat \<Rightarrow> string" where
  "show_nat n = (if n < 10 then [digit_char n] else show_nat (n div 10) @ [digit_char (n mod 10)])"

declare show_nat.simps [simp del]

text \<open>\<open>minWorkload\<close> starts as \<open>Infinity\<close>, here \<open>None\<close>.\<close>

fun show_workload :: "nat option \<Rightarrow> string" where
  "show_workload None = ''Infinity''"
| "show_workload (Some n) = show_nat n"

fun less_workload :: "nat \<Rightarrow> nat option \<Rightarrow> bool" where
  "less_workload c None = True"
| "less_workload c (Some m) = (c < m)"

section \<open>The document store\<close>

text \<open>\<open>doc(id).update(f)\<close> fails when the document does not exist.\<close>

fun update_doc :: "doc_id \<Rightarrow> ('a \<Rightarrow> 'a) \<Rightarrow> (doc_id \<times> 'a) list \<Rightarrow> (doc_id \<times> 'a) list option" where
  "update_doc i f [] = None"
| "update_doc i f ((k, v) # kvs) =
     (if k = i then Some ((k, f v) # kvs)
      else (case update_doc i f kvs of None \<Rightarrow> None | Some kvs' \<Rightarrow> Some ((k, v) # kvs')))"

text \<open>\<open>doc(id).delete()\<close> succeeds whether or not the document exists.\<close>

definition delete_doc :: "doc_id \<Rightarrow> (doc_id \<times> 'a) list \<Rightarrow> (doc_id \<times> 'a) list" where
  "delete_doc i kvs = filter (\<lambda>kv. fst kv \<noteq> i) kvs"

text \<open>\<open>FieldValue.arrayUnion(x)\<close> on a field that may be missing.\<close>

fun arrayUnion :: "doc_id \<Rightarrow> doc_id list option \<Rightarrow> doc_id list option" where
  "arrayUnion x None = Some [x]"
| "arrayUnion x (Some xs) = Some (if x \<in> set xs then xs else xs @ [x])"

section \<open>POST /problems\<close>

text \<open>\<open>doc.data().allProblems?.length || 0\<close>\<close>

definition workload :: "user \<Rightarrow> nat" where
  "workload u = (case allProblems u of None \<Rightarrow> 0 | Some xs \<Rightarrow> length xs)"

text \<open>The three equality filters of the query of step 1.\<close>

definition qualifies :: "string \<Rightarrow> user \<Rightarrow> bool" where
  "qualifies ty u \<longleftrightarrow>
     role u = Some ''technicien'' \<and> speciality u = Some ty \<and> isAvailable u = Some True"

definition available_technicians :: "(doc_id \<times> user) list \<Rightarrow> string \<Rightarrow> (doc_id \<times> user) list" where
  "available_technicians us ty = filter (\<lambda>kv. qualifies ty (snd kv)) us"

text \<open>The body of the \<open>forEach\<close> of step 2, on the pair
  (\<open>assignedTechnicianId\<close>, \<open>minWorkload\<close>).\<close>

fun select_step :: "doc_id option \<times> nat option \<Rightarrow> doc_id \<times> user \<Rightarrow> doc_id option \<times> nat option" where
  "select_step (aid, minW) (i, u) =
     (let currentProblems = workload u
      in if less_workload currentProblems minW then (Some i, Some currentProblems)
         else (aid, minW))"

definition select_technician :: "(doc_id \<times> user) list \<Rightarrow> doc_id option \<times> nat option" where
  "select_technician techs = foldl select_step (None, None) techs"

text \<open>The \<open>updates\<close> object of step 4, computed from \<open>techData\<close>, applied to the
  technician's document.\<close>

definition tech_updates :: "doc_id \<Rightarrow> timestamp \<Rightarrow> user option \<Rightarrow> user \<Rightarrow> user" where
  "tech_updates problemId ts techData u =
     u\<lparr>allProblems := arrayUnion problemId (allProblems u),
       currentProblem := Some problemId,
       lastAssigned := Some ts,
       isAvailable := Some ((case techData of None \<Rightarrow> 0 | Some t \<Rightarrow> workload t) + 1 < 3)\<rparr>"

text \<open>\<open>assignedTechnicianId || "no available technician"\<close>\<close>

fun assigned_or_sentinel :: "doc_id option \<Rightarrow> string" where
  "assigned_or_sentinel None = ''no available technician''"
| "assigned_or_sentinel (Some s) = (if s = [] then ''no available technician'' else s)"

definition created_response :: "doc_id \<Rightarrow> doc_id option \<Rightarrow> nat option \<Rightarrow> response" where
  "created_response problemId aid minW =
     ProblemCreated problemId
       (assigned_or_sentinel aid)
       minW
       (if truthy aid
        then ''Assigned to technician with '' @ show_workload minW @ '' existing problems''
        else ''No available technicians found'')"

text \<open>Step 5: the notification, sent when \<open>techData?.email\<close> is truthy. A failure of the
  call is caught and logged. The result is the log and the calls made.\<close>

fun notify_technician :: "env \<Rightarrow> body \<Rightarrow> string option \<Rightarrow> string list \<times> outbound list" where
  "notify_technician e b None = ([], [])"
| "notify_technician e b (Some technicianEmail) =
     (if technicianEmail = [] then ([], [])
      else (if email_fails e then [''Email sending failed:''] else [],
            [Email technicianEmail ''New Problem Assigned''
               (''You have been assigned a new problem: '' @
                template_str (js_or (req_description b) (req_title b)))]))"

text \<open>Step 4 and 5, entered when \<open>assignedTechnicianId\<close> is truthy, on the store that
  already holds the new problem. A failed \<open>techRef.update\<close> reaches the handler's
  \<open>catch\<close>.\<close>

definition update_technician :: "env \<Rightarrow> body \<Rightarrow> doc_id \<Rightarrow> doc_id \<Rightarrow> response \<Rightarrow> db \<Rightarrow> result" where
  "update_technician e b problemId tid ok d1 =
     (let techData = map_of (users d1) tid
      in case update_doc tid (tech_updates problemId (time_second e) techData) (users d1) of
           None \<Rightarrow>
             \<lparr>res_db = d1, res_response = ServerError ''Failed to create problem'',
              res_log = [''Error creating problem:''], res_calls = []\<rparr>
         | Some us \<Rightarrow>
             (let technicianEmail = (case techData of None \<Rightarrow> None | Some t \<Rightarrow> email t);
                  (lg, calls) = notify_technician e b technicianEmail
              in \<lparr>res_db = d1\<lparr>users := us\<rparr>, res_response = ok,
                  res_log = lg, res_calls = calls\<rparr>))"

definition new_problem :: "env \<Rightarrow> body \<Rightarrow> doc_id option \<Rightarrow> problem" where
  "new_problem e b assignedTechnicianId =
     \<lparr>chefId = req_chefId b,
      description = js_or (req_description b) (req_title b),
      type = req_type b,
      status = ''waiting'',
      createdAt = time_first e,
      isPredefined = False,
      assignedTechnician = assignedTechnicianId,
      solvedAt = None\<rparr>"

definition post_problems :: "env \<Rightarrow> body \<Rightarrow> db \<Rightarrow> result" where
  "post_problems e b d =
     (let techs = available_technicians (users d) (req_type b);
          (assignedTechnicianId, minWorkload) = select_technician techs;
          problemId = fresh_id e;
          d1 = d\<lparr>problems := problems d @ [(problemId, new_problem e b assignedTechnicianId)]\<rparr>;
          ok = created_response problemId assignedTechnicianId minWorkload;
          unassigned = \<lparr>res_db = d1, res_response = ok, res_log = [], res_calls = []\<rparr>
      in case assignedTechnicianId of
           None \<Rightarrow> unassigned
         | Some tid \<Rightarrow>
             if tid = [] then unassigned else update_technician e b problemId tid ok d1)"

section \<open>POST /problems/predefined\<close>

definition predefined_problem :: "env \<Rightarrow> body \<Rightarrow> problem" where
  "predefined_problem e b =
     \<lparr>chefId = Some ''system'',
      description = js_or (req_description b) (req_title b),
      type = req_type b,
      status = ''waiting'',
      createdAt = time_first e,
      isPredefined = True,
      assignedTechnician = None,
      solvedAt = None\<rparr>"

definition post_predefined :: "env \<Rightarrow> body \<Rightarrow> db \<Rightarrow> result" where
  "post_predefined e b d =
     (let newProblem = predefined_problem e b;
          problemId = fresh_id e
      in \<lparr>res_db = d\<lparr>problems := problems d @ [(problemId, newProblem)]\<rparr>,
          res_response = PredefinedCreated problemId ''Predefined problem created successfully''
                           None ''waiting'',
          res_log = [], res_calls = []\<rparr>)"

section \<open>PUT /problems/:id\<close>

text \<open>The \<open>updateData\<close> object applied to the problem's document.\<close>

definition updateData :: "string \<Rightarrow> timestamp \<Rightarrow> problem \<Rightarrow> problem" where
  "updateData st ts p =
     (if st = ''solved'' then p\<lparr>status := st, solvedAt := Some ts\<rparr> else p\<lparr>status := st\<rparr>)"

text \<open>The inner \<open>try\<close>: the read of the technician's document and, when it exists, the
  call to the user service. A failure of the call is caught and logged.\<close>

definition release_technician :: "env \<Rightarrow> doc_id \<Rightarrow> db \<Rightarrow> string list \<times> outbound list" where
  "release_technician e tid d =
     (case map_of (users d) tid of
        None \<Rightarrow> ([], [])
      | Some techDoc \<Rightarrow>
          (if peer_fails e then [''Error updating technician availability:''] else [],
           [PeerAvailability tid True None]))"

definition put_problem :: "env \<Rightarrow> doc_id \<Rightarrow> string \<Rightarrow> db \<Rightarrow> result" where
  "put_problem e problemId st d =
     (let problemData = map_of (problems d) problemId;
          assignedTechnicianId =
            (case problemData of None \<Rightarrow> None | Some p \<Rightarrow> assignedTechnician p)
      in case update_doc problemId (updateData st (time_first e)) (problems d) of
           None \<Rightarrow>
             \<lparr>res_db = d, res_response = ServerError ''Failed to update problem'',
              res_log = [''Error updating problem:''], res_calls = []\<rparr>
         | Some ps \<Rightarrow>
             (let d1 = d\<lparr>problems := ps\<rparr>;
                  (lg, calls) =
                    (if st = ''solved'' \<and> truthy assignedTechnicianId
                     then (case assignedTechnicianId of
                             None \<Rightarrow> ([], [])
                           | Some tid \<Rightarrow> release_technician e tid d1)
                     else ([], []))
              in \<lparr>res_db = d1,
                  res_response = StatusUpdated ''Problem status updated successfully''
                                   (st = ''solved'' \<and> truthy assignedTechnicianId),
                  res_log = lg, res_calls = calls\<rparr>))"

section \<open>DELETE /problems/:id\<close>

definition delete_problem :: "doc_id \<Rightarrow> db \<Rightarrow> result" where
  "delete_problem problemId d =
     \<lparr>res_db = d\<lparr>problems := delete_doc problemId (problems d)\<rparr>,
      res_response = Deleted ''Problem deleted successfully'',
      res_log = [], res_calls = []\<rparr>"

section \<open>The Firestore trigger on the creation of a problem document\<close>

text \<open>The query of the trigger: role and speciality only, \<open>limit(1)\<close>.\<close>

definition is_technician_of :: "string \<Rightarrow> user \<Rightarrow> bool" where
  "is_technician_of ty u \<longleftrightarrow> role u = Some ''technicien'' \<and> speciality u = Some ty"

definition technicians_of_type :: "(doc_id \<times> user) list \<Rightarrow> string \<Rightarrow> (doc_id \<times> user) list" where
  "technicians_of_type us ty = take 1 (filter (\<lambda>kv. is_technician_of ty (snd kv)) us)"

text \<open>The event carries the snapshot of the created document (possibly undefined) and the
  document id. The trigger returns the store and what it logged.\<close>

fun assignTechnicianToProblem :: "problem option \<Rightarrow> doc_id \<Rightarrow> db \<Rightarrow> db \<times> string list" where
  "assignTechnicianToProblem None problemId d = (d, [''Snapshot is undefined''])"
| "assignTechnicianToProblem (Some problemData) problemId d =
     (if isPredefined problemData
      then (d, [''Skipping technician assignment for predefined problem''])
      else (let problemType = type problemData
            in case technicians_of_type (users d) problemType of
                 [] \<Rightarrow> (d, [''No technician found for problem type: '' @ problemType])
               | (technicianId, _) # _ \<Rightarrow>
                   (case update_doc problemId (\<lambda>p. p\<lparr>assignedTechnician := Some technicianId\<rparr>)
                           (problems d) of
                      None \<Rightarrow> (d, [''Error assigning technician:''])
                    | Some ps \<Rightarrow>
                        (d\<lparr>problems := ps\<rparr>,
                         [''Assigned technician '' @ technicianId @ '' to problem '' @ problemId]))))"

text \<open>The \<open>allProblems\<close> array of a technician, empty when the field is missing.\<close>

definition problem_ids :: "user \<Rightarrow> doc_id list" where
  "problem_ids u = (case allProblems u of None \<Rightarrow> [] | Some xs \<Rightarrow> xs)"

section \<open>An example store\<close>

text \<open>Three available plumbers: T with two problems, U without the \<open>allProblems\<close> field,
  V with an empty one and no email address.\<close>

definition tech_T :: user where
  "tech_T = \<lparr>role = Some ''technicien'', speciality = Some ''plumbing'', isAvailable = Some True,
             allProblems = Some [''p1'', ''p2''], email = Some ''t@example.org'',
             currentProblem = Some ''p2'', lastAssigned = Some 5\<rparr>"

definition tech_U :: user where
  "tech_U = \<lparr>role = Some ''technicien'', speciality = Some ''plumbing'', isAvailable = Some True,
             allProblems = None, email = Some ''u@example.org'',
             currentProblem = None, lastAssigned = None\<rparr>"

definition tech_V :: user where
  "tech_V = \<lparr>role = Some ''technicien'', speciality = Some ''plumbing'', isAvailable = Some True,
             allProblems = Some [], email = None,
             currentProblem = None, lastAssigned = None\<rparr>"

definition problem_p1 :: problem where
  "problem_p1 = \<lparr>chefId = Some ''chef1'', description = Some ''leak'', type = ''plumbing'',
                 status = ''waiting'', createdAt = 1, isPredefined = False,
                 assignedTechnician = Some ''T'', solvedAt = None\<rparr>"

definition db0 :: db where
  "db0 = \<lparr>users = [(''T'', tech_T), (''U'', tech_U), (''V'', tech_V)],
          problems = [(''p1'', problem_p1), (''p2'', problem_p1\<lparr>description := Some ''tap''\<rparr>)]\<rparr>"

definition env0 :: env where
  "env0 = \<lparr>fresh_id = ''p3'', time_first = 10, time_second = 11,
           email_fails = True, peer_fails = True\<rparr>"

definition body0 :: body where
  "body0 = \<lparr>req_chefId = Some ''chef1'', req_title = Some ''sink'', req_description = None,
            req_type = ''plumbing''\<rparr>"

text \<open>The store after POST /problems on the example: the new problem \<open>p3\<close> is assigned to
  U. A later request is served at time 20.\<close>

definition problem_p3 :: problem where
  "problem_p3 = \<lparr>chefId = Some ''chef1'', description = Some ''sink'', type = ''plumbing'',
                 status = ''waiting'', createdAt = 10, isPredefined = False,
                 assignedTechnician = Some ''U'', solvedAt = None\<rparr>"

definition db1 :: db where
  "db1 = res_db (post_problems env0 body0 db0)"

definition env1 :: env where
  "env1 = env0\<lparr>time_first := 20\<rparr>"

text \<open>A store with users that the query of POST /problems must leave out although they
  have no problem at all: A is a plumber who is not available, B is no technician, E is an
  available electrician. They come before the three plumbers of the first store.\<close>

definition tech_A :: user where
  "tech_A = \<lparr>role = Some ''technicien'', speciality = Some ''plumbing'', isAvailable = Some False,
             allProblems = None, email = Some ''a@example.org'',
             currentProblem = None, lastAssigned = None\<rparr>"

definition user_B :: user where
  "user_B = \<lparr>role = Some ''chef'', speciality = None, isAvailable = None,
             allProblems = None, email = Some ''b@example.org'',
             currentProblem = None, lastAssigned = None\<rparr>"

definition tech_E :: user where
  "tech_E = \<lparr>role = Some ''technicien'', speciality = Some ''electrical'', isAvailable = Some True,
             allProblems = Some [], email = Some ''e@example.org'',
             currentProblem = None, lastAssigned = None\<rparr>"

definition db2 :: db where
  "db2 = \<lparr>users = [(''A'', tech_A), (''B'', user_B), (''E'', tech_E),
                   (''T'', tech_T), (''U'', tech_U), (''V'', tech_V)],
          problems = problems db0\<rparr>"

section \<open>Properties of the store and of the selection\<close>

lemma select_technician_snoc:
  "select_technician (techs @ [t]) = select_step (select_technician techs) t"
  by (simp add: select_technician_def)

lemma select_technician_first_min:
  assumes "techs \<noteq> []"
  shows "\<exists>i<length techs.
           select_technician techs = (Some (fst (techs ! i)), Some (workload (snd (techs ! i))))
         \<and> (\<forall>j<length techs. workload (snd (techs ! i)) \<le> workload (snd (techs ! j)))
         \<and> (\<forall>j<i. workload (snd (techs ! i)) < workload (snd (techs ! j)))"
  using assms
proof (induction techs rule: rev_nonempty_induct)
  case (single t)
  show ?case by (cases t) (simp add: select_technician_def)
next
  case (snoc t techs)
  then obtain i where i: "i < length techs"
    and sel: "select_technician techs = (Some (fst (techs ! i)), Some (workload (snd (techs ! i))))"
    and le: "\<forall>j<length techs. workload (snd (techs ! i)) \<le> workload (snd (techs ! j))"
    and lt: "\<forall>j<i. workload (snd (techs ! i)) < workload (snd (techs ! j))"
    by blast
  obtain k u where t: "t = (k, u)" by (cases t)
  show ?case
  proof (cases "workload u < workload (snd (techs ! i))")
    case True
    have "select_technician (techs @ [t]) = (Some k, Some (workload u))"
      using True sel by (simp add: select_technician_snoc t)
    moreover have "\<forall>j<length (techs @ [t]). workload u \<le> workload (snd ((techs @ [t]) ! j))"
      using True le by (auto simp add: nth_append t less_Suc_eq)
    moreover have "\<forall>j<length techs. workload u < workload (snd ((techs @ [t]) ! j))"
      using True le by (auto simp add: nth_append intro: less_le_trans)
    ultimately show ?thesis
      by (intro exI[of _ "length techs"]) (simp add: t)
  next
    case False
    have "select_technician (techs @ [t]) = (Some (fst (techs ! i)), Some (workload (snd (techs ! i))))"
      using False sel by (simp add: select_technician_snoc t)
    moreover have "\<forall>j<length (techs @ [t]). workload (snd (techs ! i)) \<le> workload (snd ((techs @ [t]) ! j))"
      using False le by (auto simp add: nth_append t less_Suc_eq)
    moreover have "\<forall>j<i. workload (snd (techs ! i)) < workload (snd ((techs @ [t]) ! j))"
      using lt i by (auto simp add: nth_append)
    ultimately show ?thesis using i
      by (intro exI[of _ i]) (simp add: nth_append)
  qed
qed

lemma update_doc_None_iff: "update_doc i f kvs = None \<longleftrightarrow> i \<notin> fst ` set kvs"
  by (induction kvs) (auto split: option.splits if_splits)

lemma update_doc_keys: "update_doc i f kvs = Some kvs' \<Longrightarrow> map fst kvs' = map fst kvs"
  by (induction kvs arbitrary: kvs') (auto split: if_splits option.splits)

lemma map_of_update_doc:
  "update_doc i f kvs = Some kvs' \<Longrightarrow>
   map_of kvs' j = (if j = i then map_option f (map_of kvs i) else map_of kvs j)"
  by (induction kvs arbitrary: kvs') (auto split: if_splits option.splits)

lemma update_doc_Some:
  "map_of kvs i = Some v \<Longrightarrow> \<exists>kvs'. update_doc i f kvs = Some kvs'"
  by (cases "update_doc i f kvs") (auto simp: update_doc_None_iff dest: map_of_SomeD intro: rev_image_eqI)

lemma delete_doc_absent: "i \<notin> fst ` set kvs \<Longrightarrow> delete_doc i kvs = kvs"
  by (induction kvs) (auto simp: delete_doc_def)

lemma map_of_delete_doc: "map_of (delete_doc i kvs) j = (if j = i then None else map_of kvs j)"
  by (induction kvs) (auto simp: delete_doc_def)

lemma available_technicians_subset:
  "set (available_technicians us ty) \<subseteq> set us"
  by (auto simp: available_technicians_def)

lemma selected_in_users:
  assumes "fst (select_technician (available_technicians us ty)) = Some tid"
  shows "tid \<in> fst ` set us"
proof -
  let ?ts = "available_technicians us ty"
  have ne: "?ts \<noteq> []" using assms by (auto simp: select_technician_def)
  from select_technician_first_min[OF ne] obtain i where
    i: "i < length ?ts" and sel: "select_technician ?ts = (Some (fst (?ts ! i)), Some (workload (snd (?ts ! i))))"
    by blast
  have "?ts ! i \<in> set us" using i available_technicians_subset nth_mem by blast
  moreover have "tid = fst (?ts ! i)" using assms sel by simp
  ultimately show ?thesis by (auto intro: rev_image_eqI)
qed

lemma post_problems_problems:
  "problems (res_db (post_problems e b d)) =
   problems d @ [(fresh_id e,
      new_problem e b (fst (select_technician (available_technicians (users d) (req_type b)))))]"
  by (auto simp: post_problems_def update_technician_def Let_def split: prod.splits option.splits)

lemma workload_problem_ids: "workload u = length (problem_ids u)"
  by (simp add: workload_def problem_ids_def split: option.splits)

lemma post_problems_selected:
  assumes "fst (select_technician (available_technicians (users d) (req_type b))) = Some tid"
    and "tid \<noteq> []"
    and "map_of (users d) tid = Some u"
  shows "\<exists>us. update_doc tid (tech_updates (fresh_id e) (time_second e) (Some u)) (users d) = Some us
     \<and> res_db (post_problems e b d) =
         \<lparr>users = us,
          problems = problems d @ [(fresh_id e, new_problem e b (Some tid))]\<rparr>"
proof -
  obtain us where us: "update_doc tid (tech_updates (fresh_id e) (time_second e) (Some u)) (users d) = Some us"
    using update_doc_Some[OF assms(3)] by blast
  obtain mw where sel: "select_technician (available_technicians (users d) (req_type b)) = (Some tid, mw)"
    using assms(1) by (cases "select_technician (available_technicians (users d) (req_type b))") simp
  have "res_db (post_problems e b d) =
         \<lparr>users = us, problems = problems d @ [(fresh_id e, new_problem e b (Some tid))]\<rparr>"
    using assms(2,3) us
    by (simp add: post_problems_def update_technician_def Let_def sel split: prod.splits)
  with us show ?thesis by blast
qed

lemma update_doc_map_of:
  assumes "update_doc i f kvs = Some kvs'" and "map_of kvs i = Some v"
  shows "map_of kvs' = (map_of kvs)(i \<mapsto> f v)"
  using map_of_update_doc[OF assms(1)] assms(2) by (auto simp: fun_eq_iff)

lemma db1_problems:
  "problems db1 = problems db0 @ [(''p3'', problem_p3)]"
  by (simp add: db1_def post_problems_problems problem_p3_def new_problem_def
        available_technicians_def select_technician_def qualifies_def workload_def
        db0_def env0_def body0_def tech_T_def tech_U_def tech_V_def js_or_def)

lemma db1_users_keys: "map fst (users db1) = [''T'', ''U'', ''V'']"
  by (simp add: db1_def post_problems_def update_technician_def Let_def
        available_technicians_def select_technician_def qualifies_def workload_def
        db0_def env0_def body0_def tech_T_def tech_U_def tech_V_def)

lemma db1_users:
  "users db1 = [(''T'', tech_T),
                (''U'', tech_U\<lparr>allProblems := Some [''p3''], currentProblem := Some ''p3'',
                               lastAssigned := Some 11, isAvailable := Some True\<rparr>),
                (''V'', tech_V)]"
  by (simp add: db1_def post_problems_def update_technician_def Let_def
        available_technicians_def select_technician_def qualifies_def workload_def
        db0_def env0_def body0_def tech_T_def tech_U_def tech_V_def tech_updates_def)

lemma technicians_of_type_none:
  "\<forall>kv\<in>set us. \<not> is_technician_of ty (snd kv) \<Longrightarrow> technicians_of_type us ty = []"
  by (simp add: technicians_of_type_def filter_empty_conv)

lemma technicians_of_type_first:
  assumes "us = pre @ (tid, u) # post" and "\<forall>kv\<in>set pre. \<not> is_technician_of ty (snd kv)"
    and "is_technician_of ty u"
  shows "technicians_of_type us ty = [(tid, u)]"
proof -
  have "filter (\<lambda>kv. is_technician_of ty (snd kv)) pre = []"
    using assms(2) by (simp add: filter_empty_conv)
  then show ?thesis using assms(1,3) by (simp add: technicians_of_type_def)
qed

lemma put_problem_existing:
  assumes "map_of (problems d) pid = Some p"
  shows "\<exists>ps. update_doc pid (updateData st (time_first e)) (problems d) = Some ps
     \<and> res_db (put_problem e pid st d) = d\<lparr>problems := ps\<rparr>
     \<and> res_response (put_problem e pid st d) =
         StatusUpdated ''Problem status updated successfully''
           (st = ''solved'' \<and> truthy (assignedTechnician p))"
proof -
  obtain ps where ps: "update_doc pid (updateData st (time_first e)) (problems d) = Some ps"
    using update_doc_Some[OF assms] by blast
  have "res_db (put_problem e pid st d) = d\<lparr>problems := ps\<rparr>"
    by (simp add: put_problem_def Let_def ps assms split: prod.splits)
  moreover have "res_response (put_problem e pid st d) =
         StatusUpdated ''Problem status updated successfully''
           (st = ''solved'' \<and> truthy (assignedTechnician p))"
    by (simp add: put_problem_def Let_def ps assms split: prod.splits)
  ultimately show ?thesis using ps by blast
qed

lemma put_problem_lookup:
  assumes "map_of (problems d) pid = Some p"
  shows "map_of (problems (res_db (put_problem e pid st d))) =
           (map_of (problems d))(pid \<mapsto> updateData st (time_first e) p)"
    and "users (res_db (put_problem e pid st d)) = users d"
    and "map fst (problems (res_db (put_problem e pid st d))) = map fst (problems d)"
proof -
  from put_problem_existing[OF assms, of st e] obtain ps where
    ps: "update_doc pid (updateData st (time_first e)) (problems d) = Some ps"
    and db: "res_db (put_problem e pid st d) = d\<lparr>problems := ps\<rparr>"
    by blast
  show "map_of (problems (res_db (put_problem e pid st d))) =
           (map_of (problems d))(pid \<mapsto> updateData st (time_first e) p)"
    unfolding db using update_doc_map_of[OF ps assms] by simp
  show "users (res_db (put_problem e pid st d)) = users d"
    unfolding db by simp
  show "map fst (problems (res_db (put_problem e pid st d))) = map fst (problems d)"
    unfolding db using update_doc_keys[OF ps] by simp
qed

lemma notify_technician_calls:
  "snd (notify_technician (e\<lparr>email_fails := x\<rparr>) b em) = snd (notify_technician e b em)"
  by (cases em) simp_all

lemma notify_technician_log:
  "fst (notify_technician (e\<lparr>email_fails := True\<rparr>) b em) =
     (if snd (notify_technician e b em) = [] then [] else [''Email sending failed:''])"
  by (cases em) simp_all

lemma update_technician_email:
  "res_db (update_technician (e\<lparr>email_fails := x\<rparr>) b pid tid ok d) =
     res_db (update_technician e b pid tid ok d)
   \<and> res_response (update_technician (e\<lparr>email_fails := x\<rparr>) b pid tid ok d) =
     res_response (update_technician e b pid tid ok d)
   \<and> res_calls (update_technician (e\<lparr>email_fails := x\<rparr>) b pid tid ok d) =
     res_calls (update_technician e b pid tid ok d)"
  by (simp add: update_technician_def Let_def case_prod_beta notify_technician_calls
           split: option.splits)

lemma update_technician_email_log:
  assumes "res_calls (update_technician (e\<lparr>email_fails := True\<rparr>) b pid tid ok d) \<noteq> []"
  shows "res_log (update_technician (e\<lparr>email_fails := True\<rparr>) b pid tid ok d) =
           [''Email sending failed:'']
       \<and> res_response (update_technician (e\<lparr>email_fails := True\<rparr>) b pid tid ok d) = ok"
proof (cases "update_doc tid (tech_updates pid (time_second e) (map_of (users d) tid)) (users d)")
  case None
  then show ?thesis using assms by (simp add: update_technician_def Let_def)
next
  case (Some us)
  let ?em = "case map_of (users d) tid of None \<Rightarrow> None | Some t \<Rightarrow> email t"
  have c: "snd (notify_technician e b ?em) \<noteq> []"
    using assms Some
    by (simp add: update_technician_def Let_def case_prod_beta notify_technician_calls)
  then have "fst (notify_technician (e\<lparr>email_fails := True\<rparr>) b ?em) = [''Email sending failed:'']"
    by (simp add: notify_technician_log)
  then show ?thesis using Some
    by (simp add: update_technician_def Let_def case_prod_beta)
qed

lemma post_problems_email:
  "res_db (post_problems (e\<lparr>email_fails := x\<rparr>) b d) = res_db (post_problems e b d)
   \<and> res_response (post_problems (e\<lparr>email_fails := x\<rparr>) b d) = res_response (post_problems e b d)
   \<and> res_calls (post_problems (e\<lparr>email_fails := x\<rparr>) b d) = res_calls (post_problems e b d)"
  by (simp add: post_problems_def Let_def new_problem_def case_prod_beta update_technician_email
           split: option.splits)

lemma post_problems_email_log:
  assumes "res_calls (post_problems (e\<lparr>email_fails := True\<rparr>) b d) \<noteq> []"
  shows "res_log (post_problems (e\<lparr>email_fails := True\<rparr>) b d) = [''Email sending failed:'']
       \<and> status_code (res_response (post_problems (e\<lparr>email_fails := True\<rparr>) b d)) = 201"
proof -
  let ?sel = "select_technician (available_technicians (users d) (req_type b))"
  obtain tid where tid: "fst ?sel = Some tid" and ne: "tid \<noteq> []"
    using assms
    by (auto simp: post_problems_def Let_def case_prod_beta split: option.splits if_splits)
  let ?ok = "created_response (fresh_id e) (fst ?sel) (snd ?sel)"
  let ?d1 = "d\<lparr>problems := problems d @ [(fresh_id e, new_problem (e\<lparr>email_fails := True\<rparr>) b (fst ?sel))]\<rparr>"
  have eq: "post_problems (e\<lparr>email_fails := True\<rparr>) b d =
        update_technician (e\<lparr>email_fails := True\<rparr>) b (fresh_id e) tid ?ok ?d1"
    using tid ne by (simp add: post_problems_def Let_def case_prod_beta)
  have "status_code ?ok = 201" by (simp add: created_response_def)
  then show ?thesis
    using assms update_technician_email_log[where e=e and b=b and pid="fresh_id e" and tid=tid
            and ok="?ok" and d="?d1"]
    unfolding eq by simp
qed

lemma release_technician_peer:
  "snd (release_technician (e\<lparr>peer_fails := x\<rparr>) tid d) = snd (release_technician e tid d)"
  by (simp add: release_technician_def split: option.splits)

lemma release_technician_log:
  "fst (release_technician (e\<lparr>peer_fails := True\<rparr>) tid d) =
     (if snd (release_technician e tid d) = [] then []
      else [''Error updating technician availability:''])"
  by (simp add: release_technician_def split: option.splits)

lemma put_problem_peer:
  "res_db (put_problem (e\<lparr>peer_fails := x\<rparr>) pid st d) = res_db (put_problem e pid st d)
   \<and> res_response (put_problem (e\<lparr>peer_fails := x\<rparr>) pid st d) = res_response (put_problem e pid st d)
   \<and> res_calls (put_problem (e\<lparr>peer_fails := x\<rparr>) pid st d) = res_calls (put_problem e pid st d)"
  by (simp add: put_problem_def Let_def case_prod_beta release_technician_peer
           split: option.splits)

lemma put_problem_peer_log:
  assumes "res_calls (put_problem (e\<lparr>peer_fails := True\<rparr>) pid st d) \<noteq> []"
  shows "res_log (put_problem (e\<lparr>peer_fails := True\<rparr>) pid st d) =
           [''Error updating technician availability:'']
       \<and> status_code (res_response (put_problem (e\<lparr>peer_fails := True\<rparr>) pid st d)) = 200"
  using assms
  by (auto simp: put_problem_def Let_def case_prod_beta release_technician_log
                 release_technician_peer split: option.splits if_splits)

lemma post_problems_selection:
  assumes "available_technicians (users d) (req_type b) = techs" and "techs \<noteq> []"
  shows "\<exists>i<length techs. \<exists>p.
           problems (res_db (post_problems e b d)) = problems d @ [(fresh_id e, p)]
         \<and> assignedTechnician p = Some (fst (techs ! i))
         \<and> (\<forall>j<length techs. workload (snd (techs ! i)) \<le> workload (snd (techs ! j)))
         \<and> (\<forall>j<i. workload (snd (techs ! i)) < workload (snd (techs ! j)))
         \<and> (fst (techs ! i) \<noteq> [] \<longrightarrow>
              res_response (post_problems e b d) =
                ProblemCreated (fresh_id e) (fst (techs ! i)) (Some (workload (snd (techs ! i))))
                  (''Assigned to technician with '' @ show_nat (workload (snd (techs ! i)))
                   @ '' existing problems''))"
proof -
  from select_technician_first_min[OF assms(2)] obtain i where
    i: "i < length techs"
    and sel: "select_technician techs = (Some (fst (techs ! i)), Some (workload (snd (techs ! i))))"
    and le: "\<forall>j<length techs. workload (snd (techs ! i)) \<le> workload (snd (techs ! j))"
    and lt: "\<forall>j<i. workload (snd (techs ! i)) < workload (snd (techs ! j))"
    by blast
  let ?tid = "fst (techs ! i)"
  have prob: "problems (res_db (post_problems e b d)) =
              problems d @ [(fresh_id e, new_problem e b (Some ?tid))]"
    by (simp add: post_problems_problems assms(1) sel)
  have asg: "assignedTechnician (new_problem e b (Some ?tid)) = Some ?tid"
    by (simp add: new_problem_def)
  have resp: "res_response (post_problems e b d) =
                ProblemCreated (fresh_id e) ?tid (Some (workload (snd (techs ! i))))
                  (''Assigned to technician with '' @ show_nat (workload (snd (techs ! i)))
                   @ '' existing problems'')" if ne: "?tid \<noteq> []"
  proof -
    have "fst (select_technician (available_technicians (users d) (req_type b))) = Some ?tid"
      by (simp add: assms(1) sel)
    then have "?tid \<in> fst ` set (users d)" by (rule selected_in_users)
    then have "update_doc ?tid f (users d) \<noteq> None" for f
      by (simp add: update_doc_None_iff)
    then show ?thesis using ne
      by (auto simp: post_problems_def update_technician_def created_response_def Let_def
                     assms(1) sel split: prod.splits option.splits)
  qed
  show ?thesis
    using i prob asg le lt resp by blast
qed

section \<open>Selection of the least loaded technician\<close>

text \<open>
  C1. Let the candidates be the users, in query order, whose \<open>role\<close> is \<open>technicien\<close>,
  whose \<open>speciality\<close> is the requested type and whose \<open>isAvailable\<close> is true, and let the
  load of a user be the length of its \<open>allProblems\<close>, 0 when the field is missing. When
  there is at least one candidate, POST /problems assigns the new problem to the candidate
  at some position \<open>i\<close> whose load is the minimum over the candidates, and every candidate
  before position \<open>i\<close> has a strictly larger load: among the least loaded, the first in
  query order is chosen. When that id is a non-empty string the response reports it with
  that load.
\<close>

theorem post_problems_least_loaded_first_seen:
  assumes "filter (\<lambda>kv. role (snd kv) = Some ''technicien''
                      \<and> speciality (snd kv) = Some (req_type b)
                      \<and> isAvailable (snd kv) = Some True) (users d) = techs"
    and "techs \<noteq> []"
  shows "\<exists>i<length techs. \<exists>p.
           problems (res_db (post_problems e b d)) = problems d @ [(fresh_id e, p)]
         \<and> assignedTechnician p = Some (fst (techs ! i))
         \<and> (\<forall>j<length techs.
               (case allProblems (snd (techs ! i)) of None \<Rightarrow> 0 | Some xs \<Rightarrow> length xs)
               \<le> (case allProblems (snd (techs ! j)) of None \<Rightarrow> 0 | Some xs \<Rightarrow> length xs))
         \<and> (\<forall>j<i.
               (case allProblems (snd (techs ! i)) of None \<Rightarrow> 0 | Some xs \<Rightarrow> length xs)
               < (case allProblems (snd (techs ! j)) of None \<Rightarrow> 0 | Some xs \<Rightarrow> length xs))
         \<and> (fst (techs ! i) \<noteq> [] \<longrightarrow>
              res_response (post_problems e b d) =
                ProblemCreated (fresh_id e) (fst (techs ! i))
                  (Some (case allProblems (snd (techs ! i)) of None \<Rightarrow> 0 | Some xs \<Rightarrow> length xs))
                  (''Assigned to technician with ''
                   @ show_nat (case allProblems (snd (techs ! i)) of None \<Rightarrow> 0
                               | Some xs \<Rightarrow> length xs)
                   @ '' existing problems''))"
proof -
  have a: "available_technicians (users d) (req_type b) = techs"
    using assms(1) by (simp add: available_technicians_def qualifies_def)
  show ?thesis
    by (rule post_problems_selection[OF a assms(2), of e, unfolded workload_def])
qed

text \<open>
  On the store \<open>db2\<close> the candidates for plumbing are T, U and V: A is not available, B is
  no technician and E is an electrician, although each of them has no problem at all. The
  new problem goes to U, the first of the two candidates without problems, and the response
  reports a workload of 0.
\<close>

theorem post_problems_least_loaded_first_seen_witness:
  "filter (\<lambda>kv. role (snd kv) = Some ''technicien''
               \<and> speciality (snd kv) = Some (req_type body0)
               \<and> isAvailable (snd kv) = Some True) (users db2)
     = [(''T'', tech_T), (''U'', tech_U), (''V'', tech_V)]
   \<and> [(''T'', tech_T), (''U'', tech_U), (''V'', tech_V)] \<noteq> []
   \<and> (\<exists>p. problems (res_db (post_problems env0 body0 db2)) = problems db2 @ [(''p3'', p)]
          \<and> assignedTechnician p = Some ''U'')
   \<and> res_response (post_problems env0 body0 db2) =
        ProblemCreated ''p3'' ''U'' (Some 0) ''Assigned to technician with 0 existing problems''"
proof -
  let ?techs = "[(''T'', tech_T), (''U'', tech_U), (''V'', tech_V)]"
  have h: "filter (\<lambda>kv. role (snd kv) = Some ''technicien''
               \<and> speciality (snd kv) = Some (req_type body0)
               \<and> isAvailable (snd kv) = Some True) (users db2) = ?techs"
    by (simp add: db2_def body0_def tech_A_def user_B_def tech_E_def
                  tech_T_def tech_U_def tech_V_def)
  have n: "?techs \<noteq> []" by simp
  from post_problems_least_loaded_first_seen[OF h n, of env0] obtain i p where
    i: "i < length ?techs"
    and pr: "problems (res_db (post_problems env0 body0 db2)) = problems db2 @ [(fresh_id env0, p)]"
    and asg: "assignedTechnician p = Some (fst (?techs ! i))"
    and le: "\<forall>j<length ?techs.
               (case allProblems (snd (?techs ! i)) of None \<Rightarrow> 0 | Some xs \<Rightarrow> length xs)
               \<le> (case allProblems (snd (?techs ! j)) of None \<Rightarrow> 0 | Some xs \<Rightarrow> length xs)"
    and lt: "\<forall>j<i.
               (case allProblems (snd (?techs ! i)) of None \<Rightarrow> 0 | Some xs \<Rightarrow> length xs)
               < (case allProblems (snd (?techs ! j)) of None \<Rightarrow> 0 | Some xs \<Rightarrow> length xs)"
    and resp: "fst (?techs ! i) \<noteq> [] \<longrightarrow>
              res_response (post_problems env0 body0 db2) =
                ProblemCreated (fresh_id env0) (fst (?techs ! i))
                  (Some (case allProblems (snd (?techs ! i)) of None \<Rightarrow> 0 | Some xs \<Rightarrow> length xs))
                  (''Assigned to technician with ''
                   @ show_nat (case allProblems (snd (?techs ! i)) of None \<Rightarrow> 0
                               | Some xs \<Rightarrow> length xs)
                   @ '' existing problems'')"
    by blast
  have cases: "i = 0 \<or> i = 1 \<or> i = 2" using i by auto
  have not0: "i \<noteq> 0"
  proof
    assume "i = 0"
    with le[rule_format, of 1] show False by (simp add: tech_T_def tech_U_def)
  qed
  have not2: "i \<noteq> 2"
  proof
    assume "i = 2"
    with lt[rule_format, of 1] show False by (simp add: tech_U_def tech_V_def)
  qed
  have i1: "i = 1" using cases not0 not2 by blast
  have a: "assignedTechnician p = Some ''U''" using asg by (simp add: i1)
  have p: "problems (res_db (post_problems env0 body0 db2)) = problems db2 @ [(''p3'', p)]"
    using pr by (simp add: env0_def)
  have r: "res_response (post_problems env0 body0 db2) =
        ProblemCreated ''p3'' ''U'' (Some 0) ''Assigned to technician with 0 existing problems''"
    using resp by (simp add: i1 tech_U_def env0_def show_nat.simps digit_char_def)
  show ?thesis using h n a p r by blast
qed

lemma scenario_least_loaded:
  "res_response (post_problems env0 body0 db0) =
     ProblemCreated ''p3'' ''U'' (Some 0) ''Assigned to technician with 0 existing problems''"
  by (simp add: post_problems_def update_technician_def created_response_def Let_def
        available_technicians_def select_technician_def qualifies_def workload_def
        db0_def env0_def body0_def tech_T_def tech_U_def tech_V_def new_problem_def tech_updates_def
        show_nat.simps digit_char_def js_or_def)

section \<open>Effect of an assignment on the technician\<close>

text \<open>
  C2. When POST /problems selects a technician (the id is a non-empty string, as every
  Firestore document id is) and the generated problem id does not yet occur in the
  technician's \<open>allProblems\<close>, then after the request the technician's \<open>allProblems\<close> is
  the old array followed by the new id, so the workload is one more than before,
  \<open>currentProblem\<close> is the new id, \<open>lastAssigned\<close> is the timestamp of the update, and
  \<open>isAvailable\<close> is true exactly when the new workload is below 3, hence false exactly
  when the new workload has reached 3.
\<close>

theorem post_problems_updates_technician:
  assumes "fst (select_technician (available_technicians (users d) (req_type b))) = Some tid"
    and "tid \<noteq> []"
    and "map_of (users d) tid = Some u"
    and "fresh_id e \<notin> set (problem_ids u)"
  shows "\<exists>u'. map_of (users (res_db (post_problems e b d))) tid = Some u'
     \<and> problem_ids u' = problem_ids u @ [fresh_id e]
     \<and> workload u' = workload u + 1
     \<and> currentProblem u' = Some (fresh_id e)
     \<and> lastAssigned u' = Some (time_second e)
     \<and> isAvailable u' = Some (workload u' < 3)
     \<and> (isAvailable u' = Some False \<longleftrightarrow> 3 \<le> workload u')"
proof -
  let ?f = "tech_updates (fresh_id e) (time_second e) (Some u)"
  from post_problems_selected[OF assms(1,2,3), of e] obtain us where
    us: "update_doc tid ?f (users d) = Some us"
    and db: "res_db (post_problems e b d) =
         \<lparr>users = us, problems = problems d @ [(fresh_id e, new_problem e b (Some tid))]\<rparr>"
    by blast
  have look: "map_of (users (res_db (post_problems e b d))) tid = Some (?f u)"
    using map_of_update_doc[OF us, of tid] assms(3) by (simp add: db)
  have ids: "problem_ids (?f u) = problem_ids u @ [fresh_id e]"
    using assms(4) by (cases "allProblems u") (simp_all add: tech_updates_def problem_ids_def)
  have wl: "workload (?f u) = workload u + 1"
    by (simp add: workload_problem_ids ids)
  have cur: "currentProblem (?f u) = Some (fresh_id e)"
    and la: "lastAssigned (?f u) = Some (time_second e)"
    by (simp_all add: tech_updates_def)
  have av: "isAvailable (?f u) = Some (workload (?f u) < 3)"
    unfolding wl by (simp add: tech_updates_def)
  have av2: "isAvailable (?f u) = Some False \<longleftrightarrow> 3 \<le> workload (?f u)"
    unfolding av by auto
  show ?thesis using look ids wl cur la av av2 by blast
qed

theorem post_problems_updates_technician_witness:
  "fst (select_technician (available_technicians (users db0) (req_type body0))) = Some ''U''
   \<and> ''U'' \<noteq> []
   \<and> map_of (users db0) ''U'' = Some tech_U
   \<and> fresh_id env0 \<notin> set (problem_ids tech_U)
   \<and> (\<exists>u'. map_of (users (res_db (post_problems env0 body0 db0))) ''U'' = Some u'
     \<and> problem_ids u' = problem_ids tech_U @ [fresh_id env0]
     \<and> workload u' = workload tech_U + 1
     \<and> currentProblem u' = Some (fresh_id env0)
     \<and> lastAssigned u' = Some (time_second env0)
     \<and> isAvailable u' = Some (workload u' < 3)
     \<and> (isAvailable u' = Some False \<longleftrightarrow> 3 \<le> workload u'))"
proof -
  have h1: "fst (select_technician (available_technicians (users db0) (req_type body0))) = Some ''U''"
    by (simp add: available_technicians_def select_technician_def qualifies_def workload_def
          db0_def body0_def tech_T_def tech_U_def tech_V_def)
  have h2: "''U'' \<noteq> []" by simp
  have h3: "map_of (users db0) ''U'' = Some tech_U" by (simp add: db0_def)
  have h4: "fresh_id env0 \<notin> set (problem_ids tech_U)"
    by (simp add: env0_def problem_ids_def tech_U_def)
  note w = post_problems_updates_technician[OF h1 h2 h3 h4]
  show ?thesis using h1 h2 h3 h4 w by - (intro conjI, assumption+)
qed

text \<open>The third assignment makes the technician unavailable.\<close>

lemma scenario_third_problem:
  "map_of (users (res_db (post_problems env0 (body0\<lparr>req_type := ''heating''\<rparr>)
      \<lparr>users = [(''W'', tech_T\<lparr>speciality := Some ''heating''\<rparr>)], problems = []\<rparr>))) ''W''
   = Some (tech_T\<lparr>speciality := Some ''heating'', allProblems := Some [''p1'', ''p2'', ''p3''],
                  currentProblem := Some ''p3'', lastAssigned := Some 11,
                  isAvailable := Some False\<rparr>)"
  by (simp add: post_problems_def update_technician_def created_response_def Let_def
        available_technicians_def select_technician_def qualifies_def workload_def
        env0_def body0_def tech_T_def new_problem_def tech_updates_def js_or_def)

section \<open>No qualifying technician\<close>

text \<open>
  C3. When the query of POST /problems returns no technician, the request succeeds with
  status 201: the problem is stored with \<open>assignedTechnician\<close> null and status
  \<open>waiting\<close>, the users are left as they were, nothing is logged, no outbound call is made,
  and the response carries the sentinel "no available technician", no workload and the
  message "No available technicians found".
\<close>

theorem post_problems_without_technician:
  assumes "available_technicians (users d) (req_type b) = []"
  shows "post_problems e b d =
           \<lparr>res_db = d\<lparr>problems := problems d @ [(fresh_id e, new_problem e b None)]\<rparr>,
            res_response = ProblemCreated (fresh_id e) ''no available technician'' None
                             ''No available technicians found'',
            res_log = [], res_calls = []\<rparr>
       \<and> assignedTechnician (new_problem e b None) = None
       \<and> status (new_problem e b None) = ''waiting''
       \<and> \<not> isPredefined (new_problem e b None)
       \<and> type (new_problem e b None) = req_type b
       \<and> status_code (res_response (post_problems e b d)) = 201"
  using assms
  by (simp add: post_problems_def select_technician_def created_response_def new_problem_def Let_def)

theorem post_problems_without_technician_witness:
  "available_technicians (users db0) (req_type (body0\<lparr>req_type := ''electrical''\<rparr>)) = []
   \<and> res_response (post_problems env0 (body0\<lparr>req_type := ''electrical''\<rparr>) db0) =
       ProblemCreated ''p3'' ''no available technician'' None ''No available technicians found''
   \<and> map_of (problems (res_db (post_problems env0 (body0\<lparr>req_type := ''electrical''\<rparr>) db0))) ''p3''
       = Some \<lparr>chefId = Some ''chef1'', description = Some ''sink'', type = ''electrical'',
               status = ''waiting'', createdAt = 10, isPredefined = False,
               assignedTechnician = None, solvedAt = None\<rparr>"
proof -
  have h: "available_technicians (users db0) (req_type (body0\<lparr>req_type := ''electrical''\<rparr>)) = []"
    by (simp add: available_technicians_def db0_def qualifies_def tech_T_def tech_U_def tech_V_def)
  show ?thesis
    using h post_problems_without_technician[OF h, of env0]
    by (simp add: env0_def body0_def db0_def new_problem_def js_or_def)
qed

section \<open>Predefined problems\<close>

text \<open>
  C4. POST /problems/predefined stores one new problem with \<open>isPredefined\<close> true,
  \<open>assignedTechnician\<close> null and status \<open>waiting\<close>, and answers with a null assignee. The
  trigger, fired for a created document whose \<open>isPredefined\<close> is true, returns the store
  unchanged. POST /problems leaves every stored problem as it is and appends one problem
  whose \<open>isPredefined\<close> is false, so it assigns a technician to no predefined problem.
\<close>

theorem predefined_problem_never_assigned:
  "res_db (post_predefined e b d) =
      d\<lparr>problems := problems d @ [(fresh_id e, predefined_problem e b)]\<rparr>
   \<and> isPredefined (predefined_problem e b)
   \<and> assignedTechnician (predefined_problem e b) = None
   \<and> status (predefined_problem e b) = ''waiting''
   \<and> res_response (post_predefined e b d) =
       PredefinedCreated (fresh_id e) ''Predefined problem created successfully'' None ''waiting''
   \<and> (isPredefined snap \<longrightarrow>
        assignTechnicianToProblem (Some snap) pid d' =
          (d', [''Skipping technician assignment for predefined problem'']))
   \<and> (\<exists>q. problems (res_db (post_problems e b d)) = problems d @ [(fresh_id e, q)]
          \<and> \<not> isPredefined q)"
proof -
  have "\<not> isPredefined (new_problem e b a)" for a
    by (simp add: new_problem_def)
  then have "\<exists>q. problems (res_db (post_problems e b d)) = problems d @ [(fresh_id e, q)]
          \<and> \<not> isPredefined q"
    using post_problems_problems by blast
  then show ?thesis
    by (simp add: post_predefined_def predefined_problem_def Let_def)
qed

theorem predefined_problem_never_assigned_witness:
  "isPredefined (predefined_problem env0 body0)
   \<and> assignTechnicianToProblem (Some (predefined_problem env0 body0)) ''p3''
        (res_db (post_predefined env0 body0 db0))
      = (res_db (post_predefined env0 body0 db0),
         [''Skipping technician assignment for predefined problem''])
   \<and> map_of (problems (res_db (post_predefined env0 body0 db0))) ''p3'' =
       Some \<lparr>chefId = Some ''system'', description = Some ''sink'', type = ''plumbing'',
              status = ''waiting'', createdAt = 10, isPredefined = True,
              assignedTechnician = None, solvedAt = None\<rparr>"
  using predefined_problem_never_assigned[of env0 body0 db0 "predefined_problem env0 body0"
          "''p3''" "res_db (post_predefined env0 body0 db0)"]
  by (simp add: predefined_problem_def env0_def body0_def db0_def js_or_def)

section \<open>The trigger\<close>

text \<open>
  C5 (amended). The trigger does not look at the assignee of the created document. It skips
  a predefined problem. For any other problem, when no user has role \<open>technicien\<close> and
  the problem's type as speciality the store is unchanged; otherwise the first such user
  in query order, whatever its \<open>isAvailable\<close> and its workload, becomes the
  \<open>assignedTechnician\<close> of the stored problem, replacing any assignee, and nothing else
  in the store changes.
\<close>

theorem trigger_assigns_first_technician_of_type:
  "(isPredefined snap \<longrightarrow>
      assignTechnicianToProblem (Some snap) pid d =
        (d, [''Skipping technician assignment for predefined problem'']))
   \<and> (\<not> isPredefined snap \<and> (\<forall>kv\<in>set (users d). \<not> is_technician_of (type snap) (snd kv)) \<longrightarrow>
        fst (assignTechnicianToProblem (Some snap) pid d) = d)
   \<and> (\<not> isPredefined snap \<and> users d = pre @ (tid, u) # post
        \<and> (\<forall>kv\<in>set pre. \<not> is_technician_of (type snap) (snd kv))
        \<and> is_technician_of (type snap) u \<and> map_of (problems d) pid = Some q \<longrightarrow>
        users (fst (assignTechnicianToProblem (Some snap) pid d)) = users d
        \<and> map_of (problems (fst (assignTechnicianToProblem (Some snap) pid d))) =
            (map_of (problems d))(pid \<mapsto> q\<lparr>assignedTechnician := Some tid\<rparr>))"
proof (intro conjI impI)
  assume "isPredefined snap"
  then show "assignTechnicianToProblem (Some snap) pid d =
        (d, [''Skipping technician assignment for predefined problem''])"
    by simp
next
  assume "\<not> isPredefined snap \<and> (\<forall>kv\<in>set (users d). \<not> is_technician_of (type snap) (snd kv))"
  then show "fst (assignTechnicianToProblem (Some snap) pid d) = d"
    by (simp add: technicians_of_type_none)
next
  assume a: "\<not> isPredefined snap \<and> users d = pre @ (tid, u) # post
        \<and> (\<forall>kv\<in>set pre. \<not> is_technician_of (type snap) (snd kv))
        \<and> is_technician_of (type snap) u \<and> map_of (problems d) pid = Some q"
  then have np: "\<not> isPredefined snap" and us: "users d = pre @ (tid, u) # post"
    and pre: "\<forall>kv\<in>set pre. \<not> is_technician_of (type snap) (snd kv)"
    and u: "is_technician_of (type snap) u" and q: "map_of (problems d) pid = Some q"
    by simp_all
  have first: "technicians_of_type (users d) (type snap) = [(tid, u)]"
    using us pre u by (rule technicians_of_type_first)
  obtain ps where ps: "update_doc pid (\<lambda>p. p\<lparr>assignedTechnician := Some tid\<rparr>) (problems d) = Some ps"
    using update_doc_Some[OF q] by blast
  have r: "fst (assignTechnicianToProblem (Some snap) pid d) = d\<lparr>problems := ps\<rparr>"
    using np first ps by simp
  show "users (fst (assignTechnicianToProblem (Some snap) pid d)) = users d"
    unfolding r by simp
  show "map_of (problems (fst (assignTechnicianToProblem (Some snap) pid d))) =
            (map_of (problems d))(pid \<mapsto> q\<lparr>assignedTechnician := Some tid\<rparr>)"
    unfolding r using update_doc_map_of[OF ps q] by simp
qed

theorem trigger_assigns_first_technician_of_type_witness:
  "\<not> isPredefined problem_p3
   \<and> users db1 = [] @ (''T'', tech_T) # tl (users db1)
   \<and> is_technician_of (type problem_p3) tech_T
   \<and> map_of (problems db1) ''p3'' = Some problem_p3
   \<and> users (fst (assignTechnicianToProblem (Some problem_p3) ''p3'' db1)) = users db1
   \<and> map_of (problems (fst (assignTechnicianToProblem (Some problem_p3) ''p3'' db1))) =
        (map_of (problems db1))(''p3'' \<mapsto> problem_p3\<lparr>assignedTechnician := Some ''T''\<rparr>)
   \<and> assignTechnicianToProblem (Some (predefined_problem env0 body0)) ''p3'' db1 =
        (db1, [''Skipping technician assignment for predefined problem''])"
proof -
  have h1: "\<not> isPredefined problem_p3" by (simp add: problem_p3_def)
  have h2: "users db1 = [] @ (''T'', tech_T) # tl (users db1)" by (simp add: db1_users)
  have h3: "\<forall>kv\<in>set ([] :: (doc_id \<times> user) list). \<not> is_technician_of (type problem_p3) (snd kv)"
    by simp
  have h4: "is_technician_of (type problem_p3) tech_T"
    by (simp add: is_technician_of_def problem_p3_def tech_T_def)
  have h5: "map_of (problems db1) ''p3'' = Some problem_p3"
    by (simp add: db1_problems db0_def)
  have h6: "isPredefined (predefined_problem env0 body0)"
    by (simp add: predefined_problem_def)
  note w = trigger_assigns_first_technician_of_type[of problem_p3 "''p3''" db1 "[]" "''T''" tech_T
         "tl (users db1)" problem_p3]
  note v = trigger_assigns_first_technician_of_type[of "predefined_problem env0 body0" "''p3''" db1
         "[]" "''T''" tech_T "[]" problem_p3]
  have c: "users (fst (assignTechnicianToProblem (Some problem_p3) ''p3'' db1)) = users db1
   \<and> map_of (problems (fst (assignTechnicianToProblem (Some problem_p3) ''p3'' db1))) =
        (map_of (problems db1))(''p3'' \<mapsto> problem_p3\<lparr>assignedTechnician := Some ''T''\<rparr>)"
    using w[THEN conjunct2, THEN conjunct2] h1 h2 h3 h4 h5 by (elim impE) (intro conjI, assumption+)
  have s: "assignTechnicianToProblem (Some (predefined_problem env0 body0)) ''p3'' db1 =
        (db1, [''Skipping technician assignment for predefined problem''])"
    using v[THEN conjunct1] h6 by (elim impE) assumption+
  show ?thesis using h1 h2 h4 h5 c s by (elim conjE) (intro conjI, assumption+)
qed

text \<open>
  C5 as stated fails: the problem \<open>p3\<close> was created by POST /problems with U, the least
  loaded plumber, as assignee; the trigger fired for that document replaces U by T, the
  first plumber in query order, who has two problems.
\<close>

theorem trigger_overwrites_assignee_counterexample:
  "map_of (problems db1) ''p3'' = Some problem_p3
   \<and> \<not> isPredefined problem_p3
   \<and> assignedTechnician problem_p3 = Some ''U''
   \<and> map_of (problems (fst (assignTechnicianToProblem (Some problem_p3) ''p3'' db1))) ''p3''
       = Some (problem_p3\<lparr>assignedTechnician := Some ''T''\<rparr>)"
  by (simp add: db1_problems db1_users technicians_of_type_def is_technician_of_def
        problem_p3_def db0_def tech_T_def)

section \<open>The solved timestamp\<close>

text \<open>
  C6 (amended). PUT /problems/:id with status \<open>solved\<close> on a stored problem writes status
  \<open>solved\<close> and sets \<open>solvedAt\<close> to the server timestamp of that request, which is not
  null. A second such request sets \<open>solvedAt\<close> again, to the timestamp of the second
  request.
\<close>

theorem solved_stamps_time_of_request:
  assumes "map_of (problems d) pid = Some p"
  shows "\<exists>p1 p2.
       map_of (problems (res_db (put_problem e1 pid ''solved'' d))) pid = Some p1
     \<and> status p1 = ''solved'' \<and> solvedAt p1 = Some (time_first e1)
     \<and> map_of (problems (res_db (put_problem e2 pid ''solved''
                  (res_db (put_problem e1 pid ''solved'' d))))) pid = Some p2
     \<and> status p2 = ''solved'' \<and> solvedAt p2 = Some (time_first e2)"
proof -
  let ?d1 = "res_db (put_problem e1 pid ''solved'' d)"
  let ?p1 = "updateData ''solved'' (time_first e1) p"
  let ?p2 = "updateData ''solved'' (time_first e2) ?p1"
  have l1: "map_of (problems ?d1) pid = Some ?p1"
    using put_problem_lookup(1)[OF assms, of e1 "''solved''"] by simp
  have l2: "map_of (problems (res_db (put_problem e2 pid ''solved'' ?d1))) pid = Some ?p2"
    using put_problem_lookup(1)[OF l1, of e2 "''solved''"] by simp
  have "status ?p1 = ''solved''" "solvedAt ?p1 = Some (time_first e1)"
       "status ?p2 = ''solved''" "solvedAt ?p2 = Some (time_first e2)"
    by (simp_all add: updateData_def)
  with l1 l2 show ?thesis by blast
qed

theorem solved_stamps_time_of_request_witness:
  "map_of (problems db0) ''p1'' = Some problem_p1
   \<and> (\<exists>p1 p2.
       map_of (problems (res_db (put_problem env0 ''p1'' ''solved'' db0))) ''p1'' = Some p1
     \<and> status p1 = ''solved'' \<and> solvedAt p1 = Some (time_first env0)
     \<and> map_of (problems (res_db (put_problem env1 ''p1'' ''solved''
                  (res_db (put_problem env0 ''p1'' ''solved'' db0))))) ''p1'' = Some p2
     \<and> status p2 = ''solved'' \<and> solvedAt p2 = Some (time_first env1))"
proof -
  have h: "map_of (problems db0) ''p1'' = Some problem_p1" by (simp add: db0_def)
  note w = solved_stamps_time_of_request[OF h, of env0 env1]
  show ?thesis using h w by - (intro conjI, assumption+)
qed

text \<open>
  C6 as stated fails: problem \<open>p1\<close> is solved at time 10 and solved again at time 20;
  \<open>solvedAt\<close> is 10 after the first request and 20 after the second.
\<close>

theorem solved_again_restamps_counterexample:
  "map_of (problems (res_db (put_problem env0 ''p1'' ''solved'' db0))) ''p1'' =
     Some (problem_p1\<lparr>status := ''solved'', solvedAt := Some 10\<rparr>)
   \<and> map_of (problems (res_db (put_problem env1 ''p1'' ''solved''
                  (res_db (put_problem env0 ''p1'' ''solved'' db0))))) ''p1'' =
     Some (problem_p1\<lparr>status := ''solved'', solvedAt := Some 20\<rparr>)
   \<and> Some (10::nat) \<noteq> Some 20"
  by (simp add: put_problem_def Let_def db0_def env0_def env1_def updateData_def
        split: prod.splits)

section \<open>Failure of an outbound call\<close>

text \<open>
  C7. Whether the email call of POST /problems throws or not, the store and the response
  after the request are the same; when the call is made and throws, the only log entry is
  "Email sending failed:" and the response has status 201. Likewise for the availability
  call of PUT /problems/:id: the store and the response do not depend on its outcome, and
  when it is made and throws the only log entry is
  "Error updating technician availability:" and the response has status 200.
\<close>

theorem collaborator_failure_is_isolated:
  "res_db (post_problems (e\<lparr>email_fails := True\<rparr>) b d) =
     res_db (post_problems (e\<lparr>email_fails := False\<rparr>) b d)
   \<and> res_response (post_problems (e\<lparr>email_fails := True\<rparr>) b d) =
     res_response (post_problems (e\<lparr>email_fails := False\<rparr>) b d)
   \<and> (res_calls (post_problems (e\<lparr>email_fails := True\<rparr>) b d) \<noteq> [] \<longrightarrow>
        res_log (post_problems (e\<lparr>email_fails := True\<rparr>) b d) = [''Email sending failed:'']
      \<and> status_code (res_response (post_problems (e\<lparr>email_fails := True\<rparr>) b d)) = 201)
   \<and> res_db (put_problem (e\<lparr>peer_fails := True\<rparr>) pid st d) =
     res_db (put_problem (e\<lparr>peer_fails := False\<rparr>) pid st d)
   \<and> res_response (put_problem (e\<lparr>peer_fails := True\<rparr>) pid st d) =
     res_response (put_problem (e\<lparr>peer_fails := False\<rparr>) pid st d)
   \<and> (res_calls (put_problem (e\<lparr>peer_fails := True\<rparr>) pid st d) \<noteq> [] \<longrightarrow>
        res_log (put_problem (e\<lparr>peer_fails := True\<rparr>) pid st d) =
          [''Error updating technician availability:'']
      \<and> status_code (res_response (put_problem (e\<lparr>peer_fails := True\<rparr>) pid st d)) = 200)"
  using post_problems_email[where e=e and x=True and b=b and d=d] post_problems_email[where e=e and x=False and b=b and d=d]
        post_problems_email_log[where e=e and b=b and d=d]
        put_problem_peer[where e=e and x=True and pid=pid and st=st and d=d] put_problem_peer[where e=e and x=False and pid=pid and st=st and d=d]
        put_problem_peer_log[where e=e and pid=pid and st=st and d=d]
  by simp

theorem collaborator_failure_is_isolated_witness:
  "res_calls (post_problems (env0\<lparr>email_fails := True\<rparr>) body0 db0) \<noteq> []
   \<and> res_log (post_problems (env0\<lparr>email_fails := True\<rparr>) body0 db0) = [''Email sending failed:'']
   \<and> status_code (res_response (post_problems (env0\<lparr>email_fails := True\<rparr>) body0 db0)) = 201
   \<and> res_db (post_problems (env0\<lparr>email_fails := True\<rparr>) body0 db0) =
       res_db (post_problems (env0\<lparr>email_fails := False\<rparr>) body0 db0)
   \<and> res_calls (put_problem (env0\<lparr>peer_fails := True\<rparr>) ''p1'' ''solved'' db0) \<noteq> []
   \<and> res_log (put_problem (env0\<lparr>peer_fails := True\<rparr>) ''p1'' ''solved'' db0) =
          [''Error updating technician availability:'']
   \<and> status_code (res_response (put_problem (env0\<lparr>peer_fails := True\<rparr>) ''p1'' ''solved'' db0)) = 200
   \<and> res_db (put_problem (env0\<lparr>peer_fails := True\<rparr>) ''p1'' ''solved'' db0) =
       res_db (put_problem (env0\<lparr>peer_fails := False\<rparr>) ''p1'' ''solved'' db0)"
proof -
  have h1: "res_calls (post_problems (env0\<lparr>email_fails := True\<rparr>) body0 db0) \<noteq> []"
    by (simp add: post_problems_def update_technician_def Let_def
        available_technicians_def select_technician_def qualifies_def workload_def
        db0_def env0_def body0_def tech_T_def tech_U_def tech_V_def tech_updates_def)
  have h2: "res_calls (put_problem (env0\<lparr>peer_fails := True\<rparr>) ''p1'' ''solved'' db0) \<noteq> []"
    by (simp add: put_problem_def Let_def db0_def env0_def problem_p1_def
        release_technician_def split: prod.splits)
  note w = collaborator_failure_is_isolated[where e=env0 and b=body0 and d=db0 and pid="''p1''" and st="''solved''"]
  show ?thesis using h1 h2 w by blast
qed

section \<open>Frame of the status update\<close>

text \<open>
  C8. PUT /problems/:id on a stored problem replaces that document by one whose status is
  the requested one and whose \<open>solvedAt\<close> is the server timestamp when the requested
  status is \<open>solved\<close> and the old \<open>solvedAt\<close> otherwise; \<open>assignedTechnician\<close>,
  \<open>chefId\<close>, \<open>description\<close>, \<open>type\<close>, \<open>createdAt\<close> and \<open>isPredefined\<close> keep their
  values, every other problem document and the users collection are unchanged.
\<close>

theorem put_problem_changes_status_only:
  assumes "map_of (problems d) pid = Some p"
  shows "\<exists>p'. map_of (problems (res_db (put_problem e pid st d))) = (map_of (problems d))(pid \<mapsto> p')
     \<and> status p' = st
     \<and> solvedAt p' = (if st = ''solved'' then Some (time_first e) else solvedAt p)
     \<and> assignedTechnician p' = assignedTechnician p
     \<and> chefId p' = chefId p
     \<and> description p' = description p
     \<and> type p' = type p
     \<and> createdAt p' = createdAt p
     \<and> isPredefined p' = isPredefined p
     \<and> users (res_db (put_problem e pid st d)) = users d
     \<and> map fst (problems (res_db (put_problem e pid st d))) = map fst (problems d)"
proof -
  let ?p' = "updateData st (time_first e) p"
  have "status ?p' = st"
    and "solvedAt ?p' = (if st = ''solved'' then Some (time_first e) else solvedAt p)"
    and "assignedTechnician ?p' = assignedTechnician p"
    and "chefId ?p' = chefId p" and "description ?p' = description p"
    and "type ?p' = type p" and "createdAt ?p' = createdAt p"
    and "isPredefined ?p' = isPredefined p"
    by (simp_all add: updateData_def)
  then show ?thesis
    using put_problem_lookup[OF assms, of e st] by blast
qed

theorem put_problem_changes_status_only_witness:
  "map_of (problems db0) ''p1'' = Some problem_p1
   \<and> (\<exists>p'. map_of (problems (res_db (put_problem env0 ''p1'' ''progressing'' db0))) =
            (map_of (problems db0))(''p1'' \<mapsto> p')
     \<and> status p' = ''progressing''
     \<and> solvedAt p' = (if ''progressing'' = ''solved'' then Some (time_first env0) else solvedAt problem_p1)
     \<and> assignedTechnician p' = assignedTechnician problem_p1
     \<and> chefId p' = chefId problem_p1
     \<and> description p' = description problem_p1
     \<and> type p' = type problem_p1
     \<and> createdAt p' = createdAt problem_p1
     \<and> isPredefined p' = isPredefined problem_p1
     \<and> users (res_db (put_problem env0 ''p1'' ''progressing'' db0)) = users db0
     \<and> map fst (problems (res_db (put_problem env0 ''p1'' ''progressing'' db0))) = map fst (problems db0))"
proof -
  have h: "map_of (problems db0) ''p1'' = Some problem_p1" by (simp add: db0_def)
  note w = put_problem_changes_status_only[OF h, of env0 "''progressing''"]
  show ?thesis using h w by - (intro conjI, assumption+)
qed

text \<open>On the example store, solving \<open>p1\<close> at time 10.\<close>

lemma scenario_solved:
  "map_of (problems (res_db (put_problem env0 ''p1'' ''solved'' db0))) ''p1'' =
     Some (problem_p1\<lparr>status := ''solved'', solvedAt := Some 10\<rparr>)"
  by (simp add: put_problem_def Let_def db0_def env0_def updateData_def split: prod.splits)

section \<open>Deletion\<close>

text \<open>
  C9. DELETE /problems/:id answers 200 with "Problem deleted successfully" for every id;
  afterwards no problem has that id, the users are unchanged, and when no problem had
  that id the store is unchanged.
\<close>

theorem delete_problem_always_succeeds:
  "res_response (delete_problem pid d) = Deleted ''Problem deleted successfully''
   \<and> status_code (res_response (delete_problem pid d)) = 200
   \<and> map_of (problems (res_db (delete_problem pid d))) pid = None
   \<and> users (res_db (delete_problem pid d)) = users d
   \<and> (pid \<notin> fst ` set (problems d) \<longrightarrow> res_db (delete_problem pid d) = d)"
  by (simp add: delete_problem_def map_of_delete_doc delete_doc_absent)

theorem delete_problem_always_succeeds_witness:
  "''p9'' \<notin> fst ` set (problems db0)
   \<and> res_db (delete_problem ''p9'' db0) = db0
   \<and> res_response (delete_problem ''p9'' db0) = Deleted ''Problem deleted successfully''
   \<and> status_code (res_response (delete_problem ''p9'' db0)) = 200"
proof -
  have h: "''p9'' \<notin> fst ` set (problems db0)" by (simp add: db0_def)
  note w = delete_problem_always_succeeds[of "''p9''" db0]
  show ?thesis using h w by blast
qed

section \<open>The technicianUpdated flag\<close>

text \<open>
  C10. For a stored problem whose \<open>assignedTechnician\<close> is not the empty string, the
  response of PUT /problems/:id has \<open>technicianUpdated\<close> true exactly when the requested
  status is \<open>solved\<close> and \<open>assignedTechnician\<close> is not null. This holds whatever the
  outcome of the availability call: when the technician's document does not exist no call
  is made at all, and when the call is made and throws the failure is only logged.
\<close>

theorem technicianUpdated_ignores_outcome:
  assumes "map_of (problems d) pid = Some p" and "assignedTechnician p \<noteq> Some []"
  shows "res_response (put_problem e pid st d) =
           StatusUpdated ''Problem status updated successfully''
             (st = ''solved'' \<and> assignedTechnician p \<noteq> None)
       \<and> (assignedTechnician p = Some tid \<and> map_of (users d) tid = None \<longrightarrow>
            res_calls (put_problem e pid st d) = [] \<and> res_log (put_problem e pid st d) = [])
       \<and> (assignedTechnician p = Some tid \<and> map_of (users d) tid \<noteq> None \<and> st = ''solved''
            \<and> peer_fails e \<longrightarrow>
            res_calls (put_problem e pid st d) = [PeerAvailability tid True None]
            \<and> res_log (put_problem e pid st d) = [''Error updating technician availability:''])"
proof -
  have t: "truthy (assignedTechnician p) \<longleftrightarrow> assignedTechnician p \<noteq> None"
    using assms(2) by (cases "assignedTechnician p") auto
  from put_problem_existing[OF assms(1), of st e] obtain ps where
    ps: "update_doc pid (updateData st (time_first e)) (problems d) = Some ps"
    and resp: "res_response (put_problem e pid st d) =
         StatusUpdated ''Problem status updated successfully''
           (st = ''solved'' \<and> truthy (assignedTechnician p))"
    by blast
  have a: "res_response (put_problem e pid st d) =
           StatusUpdated ''Problem status updated successfully''
             (st = ''solved'' \<and> assignedTechnician p \<noteq> None)"
    using resp t by simp
  have b: "res_calls (put_problem e pid st d) = [] \<and> res_log (put_problem e pid st d) = []"
    if "assignedTechnician p = Some tid \<and> map_of (users d) tid = None"
    using that assms(1)
    by (simp add: put_problem_def Let_def ps release_technician_def split: prod.splits)
  have c: "res_calls (put_problem e pid st d) = [PeerAvailability tid True None]
            \<and> res_log (put_problem e pid st d) = [''Error updating technician availability:'']"
    if "assignedTechnician p = Some tid \<and> map_of (users d) tid \<noteq> None \<and> st = ''solved''
            \<and> peer_fails e"
  proof -
    from that have tid: "assignedTechnician p = Some tid" and st: "st = ''solved''"
      and pf: "peer_fails e" and u: "map_of (users d) tid \<noteq> None"
      by simp_all
    obtain y where y: "map_of (users d) tid = Some y" using u by blast
    have ne: "tid \<noteq> []" using assms(2) tid by auto
    have ps': "update_doc pid (updateData ''solved'' (time_first e)) (problems d) = Some ps"
      using ps st by simp
    show ?thesis
      using assms(1) tid y pf ne
      by (simp add: put_problem_def Let_def st ps' release_technician_def split: prod.splits)
  qed
  show ?thesis using a b c by blast
qed

theorem technicianUpdated_ignores_outcome_witness:
  "map_of (problems (db0\<lparr>users := []\<rparr>)) ''p1'' = Some problem_p1
   \<and> assignedTechnician problem_p1 \<noteq> Some []
   \<and> assignedTechnician problem_p1 = Some ''T''
   \<and> map_of (users (db0\<lparr>users := []\<rparr>)) ''T'' = None
   \<and> res_response (put_problem env0 ''p1'' ''solved'' (db0\<lparr>users := []\<rparr>)) =
        StatusUpdated ''Problem status updated successfully'' True
   \<and> res_calls (put_problem env0 ''p1'' ''solved'' (db0\<lparr>users := []\<rparr>)) = []"
proof -
  have h1: "map_of (problems (db0\<lparr>users := []\<rparr>)) ''p1'' = Some problem_p1" by (simp add: db0_def)
  have h2: "assignedTechnician problem_p1 \<noteq> Some []" by (simp add: problem_p1_def)
  have h3: "assignedTechnician problem_p1 = Some ''T''" by (simp add: problem_p1_def)
  have h4: "map_of (users (db0\<lparr>users := []\<rparr>)) ''T'' = None" by simp
  note w = technicianUpdated_ignores_outcome[OF h1 h2, of env0 "''solved''" "''T''"]
  have "res_response (put_problem env0 ''p1'' ''solved'' (db0\<lparr>users := []\<rparr>)) =
        StatusUpdated ''Problem status updated successfully'' True"
    using w h3 by simp
  moreover have "res_calls (put_problem env0 ''p1'' ''solved'' (db0\<lparr>users := []\<rparr>)) = []"
    using w h3 h4 by blast
  ultimately show ?thesis using h1 h2 h3 h4 by blast
qed

text \<open>On the example store the availability call for T throws and the flag is true.\<close>

lemma scenario_peer_call_fails:
  "peer_fails env0
   \<and> res_response (put_problem env0 ''p1'' ''solved'' db0) =
        StatusUpdated ''Problem status updated successfully'' True
   \<and> res_calls (put_problem env0 ''p1'' ''solved'' db0) = [PeerAvailability ''T'' True None]
   \<and> res_log (put_problem env0 ''p1'' ''solved'' db0) =
        [''Error updating technician availability:'']"
  by (simp add: put_problem_def Let_def db0_def env0_def updateData_def problem_p1_def
        release_technician_def split: prod.splits)

end
